theory Spec2Isabelle
  imports Complex_Main
begin

section \<open>Python exceptions as values\<close>

text \<open>
  The exceptions the modelled code raises or handles. A function that can raise returns
  a value of a sum type, with \<open>Inl\<close> for the exception.
\<close>

datatype py_error =
    ZeroDivisionError
  | IndexError
  | KeyError string
  | UserError string  \<comment> \<open>\<open>core.UserError\<close>, with the message its \<open>log()\<close> method renders\<close>
  | OtherException string  \<comment> \<open>any exception of another class\<close>

section \<open>The ccv scorer (\<open>src/apps/ccv/eval.py\<close>)\<close>

text \<open>
  \<^verbatim>\<open>
  def score(orig, relaxed):
    total = 0.0
    for a, b in zip(orig, relaxed):
      total += min(abs(a - b), 1.0)
    return total / len(orig)
  \<close>
  The outputs are Python floats; the model computes over \<open>real\<close>, so it describes
  the arithmetic the code asks for, without the rounding of IEEE doubles. \<open>zip\<close>
  stops at the shorter list, as Python's does. The loop is \<open>score_loop\<close>, with
  the accumulator \<open>tot\<close> for the source's \<open>total\<close> (a name HOL already uses).
  The final division raises \<open>ZeroDivisionError\<close> when \<open>len(orig)\<close> is zero.
\<close>

fun score_loop :: "real \<Rightarrow> (real \<times> real) list \<Rightarrow> real" where
  "score_loop tot [] = tot"
| "score_loop tot ((a, b) # ps) = score_loop (tot + min \<bar>a - b\<bar> 1) ps"

definition score :: "real list \<Rightarrow> real list \<Rightarrow> py_error + real" where
  "score orig relaxed =
     (let tot = score_loop 0 (zip orig relaxed)
      in if length orig = 0 then Inl ZeroDivisionError
         else Inr (tot / real (length orig)))"

text \<open>
  Modelled from the spec: the status descriptors a comparison against the baseline can
  give (section 3); the Evaluator that assigns them is in the module \<open>core\<close>, which is
  not among the sources.
\<close>

datatype descriptor = Good | Bad

text \<open>
  Modelled from the spec: the classification step of the Evaluator (module \<open>core\<close>,
  not among the sources). Section 4.6, step 4: ``if the aggregate deviation is within the
  configured tolerance, descriptor = good; if outside tolerance, bad''. The boundary case
  follows the spec's testable property ``deviation \<open>\<le>\<close> T \<open>\<Rightarrow>\<close> good''.
\<close>

definition classify :: "real \<Rightarrow> real \<Rightarrow> descriptor" where
  "classify tolerance deviation = (if deviation \<le> tolerance then Good else Bad)"

section \<open>The command-line driver (\<open>src/accept/commands.py\<close>)\<close>

subsection \<open>The group callback \<open>cli\<close> and \<open>get_eval\<close>\<close>

text \<open>
  \<^verbatim>\<open>
  GlobalConfig = namedtuple('GlobalConfig',
                            'client reps test_reps keep_sandboxes')
  \<close>
\<close>

record 'c GlobalConfig =
  client :: 'c
  reps :: int
  test_reps :: int
  keep_sandboxes :: bool

text \<open>
  The numeric levels of Python's \<open>logging\<close> module. A logger set to level \<open>l\<close>
  lets a record through when the record's level is at least \<open>l\<close>; the root logger
  starts at \<open>WARNING\<close>. The constant \<open>core.FIREHOSE\<close> is not among the sources and
  is a parameter (\<open>firehose\<close>) of \<open>cli\<close>.
\<close>

definition DEBUG :: nat where "DEBUG = 10"
definition INFO :: nat where "INFO = 20"
definition WARNING :: nat where "WARNING = 30"
definition ERROR :: nat where "ERROR = 40"

text \<open>
  Python's \<open>a or b\<close> for an optional integer \<open>a\<close>: it is \<open>b\<close> when \<open>a\<close> is falsy,
  and both \<open>None\<close> and \<open>0\<close> are falsy.
\<close>

definition py_or :: "int option \<Rightarrow> int \<Rightarrow> int" where
  "py_or a b = (case a of None \<Rightarrow> b | Some v \<Rightarrow> if v = 0 then b else v)"

text \<open>
  \<^verbatim>\<open>
  def cli(ctx, verbose, cluster, force, reps, test_reps, keep_sandboxes):
      logging.getLogger().addHandler(logging.StreamHandler(sys.stderr))
      if verbose >= 3:
          logging.getLogger().setLevel(core.FIREHOSE)
      elif verbose >= 2:
          logging.getLogger().setLevel(logging.DEBUG)
      elif verbose >= 1:
          logging.getLogger().setLevel(logging.INFO)
      client = cwmemo.get_client(cluster=cluster, force=force)
      # Testing reps fall back to training reps if unspecified.
      test_reps = test_reps or reps
      ctx.obj = GlobalConfig(client, reps, test_reps, keep_sandboxes)
  \<close>
  The option \<open>--test-reps\<close> has type \<open>int\<close> and default \<open>None\<close>, so the callback
  receives an optional integer; \<open>--verbose\<close> is a count. \<open>cwmemo.get_client\<close> is not
  among the sources and is the parameter \<open>get_client\<close>. The function returns the level
  of the root logger after the call and the value stored in \<open>ctx.obj\<close>.
\<close>

definition cli ::
  "nat \<Rightarrow> (bool \<Rightarrow> bool \<Rightarrow> 'c) \<Rightarrow> nat \<Rightarrow> nat \<Rightarrow> bool \<Rightarrow> bool \<Rightarrow> int \<Rightarrow> int option \<Rightarrow> bool
     \<Rightarrow> nat \<times> 'c GlobalConfig" where
  "cli firehose get_client logger_level verbose cluster force reps_opt test_reps_opt keep =
     (let level = (if verbose \<ge> 3 then firehose
                   else if verbose \<ge> 2 then DEBUG
                   else if verbose \<ge> 1 then INFO
                   else logger_level);
          cl = get_client cluster force;
          tr = py_or test_reps_opt reps_opt
      in (level, \<lparr>client = cl, reps = reps_opt, test_reps = tr, keep_sandboxes = keep\<rparr>))"

text \<open>
  \<^verbatim>\<open>
  def get_eval(appdir, config):
      return core.Evaluation(appdir, config.client, config.reps,
                             config.test_reps)
  \<close>
  The class \<open>core.Evaluation\<close> is not among the sources; the record holds the arguments
  its constructor receives.
\<close>

record 'c Evaluation =
  ev_appdir :: string
  ev_client :: 'c
  ev_reps :: int
  ev_test_reps :: int

definition get_eval :: "string \<Rightarrow> 'c GlobalConfig \<Rightarrow> 'c Evaluation" where
  "get_eval appdir config =
     \<lparr>ev_appdir = appdir, ev_client = client config, ev_reps = reps config,
      ev_test_reps = test_reps config\<rparr>"

subsection \<open>The entry point \<open>main\<close>\<close>

text \<open>
  \<^verbatim>\<open>
  def main():
      try:
          cli()
      except core.UserError as exc:
          logging.debug(traceback.format_exc())
          logging.error(exc.log())
          sys.exit(1)
  \<close>
  \<open>body\<close> is the outcome of the call \<open>cli()\<close>: an exception or a normal return.
  \<open>traceback.format_exc()\<close> is the parameter \<open>format_exc\<close>. The function returns the
  logging calls \<open>main\<close> makes, each with its level, and the way \<open>main\<close> ends.
\<close>

datatype ending =
    Returned
  | SystemExit int  \<comment> \<open>\<open>sys.exit(code)\<close>\<close>
  | Raised py_error  \<comment> \<open>the exception leaves \<open>main\<close>\<close>

definition main ::
  "(py_error \<Rightarrow> string) \<Rightarrow> py_error + unit \<Rightarrow> (nat \<times> string) list \<times> ending" where
  "main format_exc body =
     (case body of
        Inr _ \<Rightarrow> ([], Returned)
      | Inl (UserError msg) \<Rightarrow>
          ([(DEBUG, format_exc (UserError msg)), (ERROR, msg)], SystemExit 1)
      | Inl exc \<Rightarrow> ([], Raised exc))"

text \<open>What a logger at level \<open>logger_level\<close> hands to its handler.\<close>

definition emitted :: "nat \<Rightarrow> (nat \<times> string) list \<Rightarrow> string list" where
  "emitted logger_level records = map snd (filter (\<lambda>r. logger_level \<le> fst r) records)"

subsection \<open>The command \<open>approx\<close>\<close>

text \<open>
  Modelled from the spec: the \<open>EvaluationResult\<close> of section 3 (its class belongs to
  \<open>core\<close>, which is not among the sources), with the fields \<open>approx\<close> reads: the
  configuration, one output per replicate, one duration per replicate (\<open>None\<close> for a
  replicate that failed) and the status descriptor.
\<close>

record ('k, 'o) Result =
  config :: 'k
  outputs :: "'o list"
  durations :: "real option list"
  desc :: string

text \<open>
  Python's \<open>xs[i]\<close>: a negative index counts from the end, an index out of range raises
  \<open>IndexError\<close>.
\<close>

definition py_index :: "'a list \<Rightarrow> int \<Rightarrow> py_error + 'a" where
  "py_index xs i =
     (if 0 \<le> i \<and> i < int (length xs) then Inr (xs ! nat i)
      else if i < 0 \<and> - int (length xs) \<le> i then Inr (xs ! nat (i + int (length xs)))
      else Inl IndexError)"

text \<open>
  \<^verbatim>\<open>
      for t in result.durations:
          if t is None:
              print('  (error)')
          else:
              print('  {:.2f}'.format(t))
  \<close>
  The rendering of a float with two decimals is the parameter \<open>format_2f\<close>.
\<close>

definition print_duration :: "(real \<Rightarrow> string) \<Rightarrow> real option \<Rightarrow> string" where
  "print_duration format_2f t =
     (case t of None \<Rightarrow> ''  (error)'' | Some d \<Rightarrow> ''  '' @ format_2f d)"

text \<open>
  The body of the loop over the results; each element of the list is the text of one
  call of \<open>print\<close>.
  \<^verbatim>\<open>
      print(experiments.dump_config(result.config))
      print('output:')
      for output in result.outputs:
          print('  {}'.format(output))
      print('time:')
      for t in result.durations: ...
      if result.desc != 'good':
          print(result.desc)
      print()
  \<close>
  \<open>experiments.dump_config\<close> is not among the sources and is the parameter
  \<open>dump_config\<close>; \<open>str_of\<close> is the text \<open>'{}'.format\<close> gives for an output.
\<close>

definition print_result ::
  "('k \<Rightarrow> string) \<Rightarrow> ('o \<Rightarrow> string) \<Rightarrow> (real \<Rightarrow> string) \<Rightarrow> ('k, 'o) Result \<Rightarrow> string list" where
  "print_result dump_config str_of format_2f result =
     [dump_config (config result)] @ [''output:'']
     @ map (\<lambda>output. ''  '' @ str_of output) (outputs result)
     @ [''time:'']
     @ map (print_duration format_2f) (durations result)
     @ (if desc result \<noteq> ''good'' then [desc result] else [])
     @ ['''']"

text \<open>
  \<^verbatim>\<open>
  def approx(ctx, num, appdir):
      ev = get_eval(appdir, ctx.obj)
      with ctx.obj.client:
          ev.run()
      results = ev.results
      results = [results[num]] if num != -1 else results
      for result in results: ...
  \<close>
  \<open>run\<close> stands for \<open>ev.run()\<close> followed by the read of \<open>ev.results\<close>. The function
  returns what the command prints, or the exception that ends it.
\<close>

definition approx ::
  "('c Evaluation \<Rightarrow> ('k, 'o) Result list) \<Rightarrow> ('k \<Rightarrow> string) \<Rightarrow> ('o \<Rightarrow> string) \<Rightarrow> (real \<Rightarrow> string)
     \<Rightarrow> 'c GlobalConfig \<Rightarrow> int \<Rightarrow> string \<Rightarrow> py_error + string list" where
  "approx run dump_config str_of format_2f ctx_obj num appdir =
     (let ev = get_eval appdir ctx_obj;
          results = run ev
      in case (if num \<noteq> - 1
               then (case py_index results num of Inl e \<Rightarrow> Inl e | Inr r \<Rightarrow> Inr [r])
               else Inr results) of
           Inl e \<Rightarrow> Inl e
         | Inr rs \<Rightarrow> Inr (concat (map (print_result dump_config str_of format_2f) rs)))"

subsection \<open>The command \<open>exp\<close>\<close>












subsection \<open>\<open>log_and_output\<close>\<close>

text \<open>
  The files of a working directory: file name to contents. Only regular, readable files
  are modelled.
\<close>

type_synonym files = "string \<rightharpoonup> string"

text \<open>
  \<^verbatim>\<open>
  def log_and_output(directory, fn='accept_log.txt', keep=False):
      with core.chdir(directory):
          with core.sandbox(True, keep):
              if keep:
                  logging.info('building in directory: {0}'.format(os.getcwd()))
              if os.path.exists(fn):
                  os.remove(fn)
              output = core.build(require=False)
              if os.path.exists(fn):
                  with open(fn) as f:
                      log = f.read()
              else:
                  log = ''
              return log, output
  \<close>
  \<open>core.chdir\<close>, \<open>core.sandbox\<close> and \<open>core.build\<close> are not among the sources. The
  parameter \<open>sandbox\<close> gives, for the directory and the retention flag, the path of
  the working directory the two context managers leave the process in and the files that
  directory starts with; \<open>core_build\<close> gives the output of the build and the files of the
  working directory after it. The function returns the pair the source returns and what
  it logs at level \<open>INFO\<close>.
\<close>

definition log_and_output ::
  "(string \<Rightarrow> bool \<Rightarrow> string \<times> files) \<Rightarrow> (files \<Rightarrow> 'o \<times> files) \<Rightarrow> string \<Rightarrow> string \<Rightarrow> bool
     \<Rightarrow> (string \<times> 'o) \<times> string list" where
  "log_and_output sandbox core_build directory fn keep =
     (let (cwd, files0) = sandbox directory keep;
          infos = (if keep then [''building in directory: '' @ cwd] else []);
          files1 = (if fn \<in> dom files0 then files0(fn := None) else files0);
          (output, files2) = core_build files1;
          log = (if fn \<in> dom files2 then (case files2 fn of Some text \<Rightarrow> text | None \<Rightarrow> '''')
                 else '''')
      in ((log, output), infos))"

subsection \<open>The memoizing client\<close>

text \<open>
  Modelled from the spec: the Memo Client of section 4.4 over the Dispatch Backend of
  section 4.3 (the module \<open>cwmemo\<close>, which is not among the sources). A Job is ``a
  pairing of a callable identity and a tuple of arguments'' and the client's operations
  are \<open>submit(callable, *args)\<close> and \<open>get(callable, *args)\<close>: the fingerprint is a
  function of the callable identity and the argument tuple, and a keyword argument given
  at the call is handed on to the callable without being part of the Job. The Job
  Fingerprinter is the parameter \<open>fingerprint\<close>; \<open>call f args kwargs\<close> is the result of
  executing the callable.

  \<^item> \<open>memo_store\<close> is the Memo Store, \<open>force_mode\<close> the force mode.
  \<^item> \<open>satisfied\<close> holds the Jobs that \<open>submit\<close> marked already-satisfied, with the
    record found.
  \<^item> \<open>inflight\<close> holds the Jobs handed to the backend and not yet retrieved, with the
    result of their one execution.
  \<^item> \<open>executions\<close> lists the executions of underlying callables, in order.
\<close>

record ('fp, 'r, 'x) memo_client =
  memo_store :: "'fp \<rightharpoonup> 'r"
  force_mode :: bool
  satisfied :: "'fp \<rightharpoonup> 'r"
  inflight :: "'fp \<rightharpoonup> 'r"
  executions :: "'x list"

text \<open>
  Modelled from the spec: the Dispatch Backend's \<open>submit\<close> (section 4.3). A Job whose
  fingerprint is already in flight attaches to that computation; any other is executed
  once. The execution is asynchronous in the program; its result, a function of the call,
  is recorded here when the Job is dispatched.
\<close>

definition backend_submit ::
  "('f \<Rightarrow> 'a \<Rightarrow> 'kw \<Rightarrow> 'r) \<Rightarrow> ('fp, 'r, 'f \<times> 'a \<times> 'kw) memo_client \<Rightarrow> 'fp \<Rightarrow> 'f \<Rightarrow> 'a \<Rightarrow> 'kw
     \<Rightarrow> ('fp, 'r, 'f \<times> 'a \<times> 'kw) memo_client" where
  "backend_submit call m k f args kwargs =
     (if k \<in> dom (inflight m) then m
      else m\<lparr>inflight := (inflight m)(k \<mapsto> call f args kwargs),
             executions := executions m @ [(f, args, kwargs)]\<rparr>)"

text \<open>
  Modelled from the spec: the Memo Client's \<open>submit\<close> (section 4.4). ``Computes
  Fingerprint; if Memo Store has a record and force-mode is off, marks the Job as
  already-satisfied (no dispatch); otherwise forwards to the Dispatch Backend's
  \<open>submit\<close>.''
\<close>

definition submit ::
  "('f \<Rightarrow> 'a \<Rightarrow> 'fp) \<Rightarrow> ('f \<Rightarrow> 'a \<Rightarrow> 'kw \<Rightarrow> 'r) \<Rightarrow> ('fp, 'r, 'f \<times> 'a \<times> 'kw) memo_client
     \<Rightarrow> 'f \<Rightarrow> 'a \<Rightarrow> 'kw \<Rightarrow> ('fp, 'r, 'f \<times> 'a \<times> 'kw) memo_client" where
  "submit fingerprint call m f args kwargs =
     (let k = fingerprint f args
      in case memo_store m k of
           Some r \<Rightarrow>
             if \<not> force_mode m then m\<lparr>satisfied := (satisfied m)(k \<mapsto> r)\<rparr>
             else backend_submit call m k f args kwargs
         | None \<Rightarrow> backend_submit call m k f args kwargs)"

text \<open>
  Modelled from the spec: the Memo Client's \<open>get\<close> (section 4.4). ``If
  already-satisfied from the Memo Store, returns the cached result directly; otherwise
  calls the Dispatch Backend's \<open>get\<close>, then inserts the result into the Memo Store
  before returning it.'' The backend's \<open>get\<close> (section 4.3) returns the result of the
  submitted Job, which is then no longer in flight; ``calling \<open>get\<close> without a prior
  \<open>submit\<close> for that Fingerprint is equivalent to \<open>submit\<close> immediately followed by
  \<open>get\<close>'', which is the last branch.
\<close>

definition get ::
  "('f \<Rightarrow> 'a \<Rightarrow> 'fp) \<Rightarrow> ('f \<Rightarrow> 'a \<Rightarrow> 'kw \<Rightarrow> 'r) \<Rightarrow> ('fp, 'r, 'f \<times> 'a \<times> 'kw) memo_client
     \<Rightarrow> 'f \<Rightarrow> 'a \<Rightarrow> 'kw \<Rightarrow> 'r \<times> ('fp, 'r, 'f \<times> 'a \<times> 'kw) memo_client" where
  "get fingerprint call m f args kwargs =
     (let k = fingerprint f args
      in case satisfied m k of
           Some r \<Rightarrow> (r, m)
         | None \<Rightarrow>
             (case inflight m k of
                Some r \<Rightarrow>
                  (r, m\<lparr>memo_store := (memo_store m)(k \<mapsto> r),
                        inflight := (inflight m)(k := None)\<rparr>)
              | None \<Rightarrow>
                  (let r = call f args kwargs
                   in (r, m\<lparr>memo_store := (memo_store m)(k \<mapsto> r),
                            executions := executions m @ [(f, args, kwargs)]\<rparr>))))"


subsection \<open>The commands \<open>log\<close> and \<open>build\<close>\<close>

text \<open>
  The callables the commands hand to the client, by identity, and their execution. The
  argument tuple of \<open>log_and_output\<close> is the directory; the keyword argument \<open>keep\<close>
  is \<open>None\<close> when the call does not give it, and the callable then takes its default
  \<open>False\<close>. The file name is always the default \<open>accept_log.txt\<close>.
\<close>

datatype callable = LogAndOutput


text \<open>
  \<^verbatim>\<open>
  def log(ctx, appdir):
      appdir = core.normpath(appdir)
      with ctx.obj.client:
          ctx.obj.client.submit(log_and_output, appdir,
                                keep=ctx.obj.keep_sandboxes)
          logtxt, _ = ctx.obj.client.get(log_and_output, appdir)
      filtproc = subprocess.Popen(['c++filt'], stdin=subprocess.PIPE,
                                  stdout=subprocess.PIPE)
      out, _ = filtproc.communicate(logtxt)
      click.echo(out)
  \<close>
  \<open>core.normpath\<close> is the parameter \<open>normpath\<close>, the filter \<open>c++filt\<close> the parameter
  \<open>demangle\<close>. The function returns what the command echoes and the client after it.
\<close>

definition log ::
  "(callable \<Rightarrow> string \<Rightarrow> 'fp) \<Rightarrow> (callable \<Rightarrow> string \<Rightarrow> bool option \<Rightarrow> string \<times> 'o)
     \<Rightarrow> (string \<Rightarrow> string) \<Rightarrow> (string \<Rightarrow> string)
     \<Rightarrow> ('fp, string \<times> 'o, callable \<times> string \<times> bool option) memo_client GlobalConfig \<Rightarrow> string
     \<Rightarrow> string \<times> ('fp, string \<times> 'o, callable \<times> string \<times> bool option) memo_client" where
  "log fingerprint call normpath demangle ctx_obj appdir =
     (let appdir1 = normpath appdir;
          m1 = submit fingerprint call (client ctx_obj) LogAndOutput appdir1
                 (Some (keep_sandboxes ctx_obj));
          ((logtxt, _), m2) = get fingerprint call m1 LogAndOutput appdir1 None
      in (demangle logtxt, m2))"


subsection \<open>Properties of the scorer\<close>

lemma score_loop_sum:
  "score_loop tot ps = tot + (\<Sum>(a, b)\<leftarrow>ps. min \<bar>a - b\<bar> 1)"
  by (induction ps arbitrary: tot) auto


text \<open>
  Claim C1. With baseline outputs \<open>[1.0, 1.0, 1.0]\<close> and tolerance \<open>0.05\<close>, the
  approximate outputs \<open>[1.02, 0.98, 1.01]\<close> score \<open>1/60\<close>, which is at most
  \<open>0.05\<close>, and are classified good; the approximate outputs \<open>[1.2, 0.8, 1.1]\<close>
  score \<open>1/6\<close>, which is more than \<open>0.05\<close>, and are classified bad.
\<close>

theorem score_scenario:
  "score [1, 1, 1] [102 / 100, 98 / 100, 101 / 100] = Inr (1 / 60)
   \<and> (1 / 60 :: real) \<le> 5 / 100
   \<and> classify (5 / 100) (1 / 60) = Good
   \<and> score [1, 1, 1] [12 / 10, 8 / 10, 11 / 10] = Inr (1 / 6)
   \<and> (5 / 100 :: real) < 1 / 6
   \<and> classify (5 / 100) (1 / 6) = Bad"
  by (simp add: score_def classify_def)



text \<open>
  Claim C10. For an empty original output list the scorer fails with a division by
  zero, whatever the relaxed output list is.
\<close>

theorem score_empty_orig: "score [] relaxed = Inl ZeroDivisionError"
  by (simp add: score_def)

subsection \<open>Properties of \<open>cli\<close> and \<open>main\<close>\<close>

lemma cli_test_reps:
  "test_reps (snd (cli firehose get_client lvl verbose cluster force r tr keep)) =
     (case tr of None \<Rightarrow> r | Some v \<Rightarrow> if v = 0 then r else v)"
  by (simp add: cli_def py_or_def Let_def)

lemma cli_reps: "reps (snd (cli firehose get_client lvl verbose cluster force r tr keep)) = r"
  by (simp add: cli_def Let_def)

text \<open>
  Claim C2. When the test replication factor is left unspecified the configuration
  carries the search replication factor; a specified value is carried as it is. The
  code does the first, and the second for every value but \<open>0\<close>: with \<open>--test-reps 0\<close>
  and the default \<open>--reps 1\<close> the configuration passed to the Evaluator carries \<open>1\<close>.
\<close>

theorem cli_test_reps_zero:
  "ev_test_reps (get_eval appdir
      (snd (cli firehose get_client WARNING 0 False False 1 (Some 0) False))) = 1"
  by (simp add: get_eval_def cli_def py_or_def Let_def)

lemma cli_level:
  "fst (cli firehose get_client lvl verbose cluster force r tr keep) =
     (if 3 \<le> verbose then firehose else if 2 \<le> verbose then DEBUG
      else if 1 \<le> verbose then INFO else lvl)"
  by (simp add: cli_def Let_def)



lemma main_traceback_verbosity:
  assumes "firehose \<le> DEBUG"
  shows "emitted (fst (cli firehose get_client WARNING verbose cluster force r tr keep))
           (fst (main format_exc (Inl (UserError msg)))) =
         (if 2 \<le> verbose then [format_exc (UserError msg), msg] else [msg])"
  using assms
  by (simp add: main_def emitted_def cli_def Let_def DEBUG_def INFO_def WARNING_def ERROR_def)

subsection \<open>Properties of \<open>approx\<close>\<close>

lemma py_index_in_range:
  "- int (length xs) \<le> i \<Longrightarrow> i < int (length xs) \<Longrightarrow>
   py_index xs i = Inr (xs ! nat (if i < 0 then i + int (length xs) else i))"
  by (simp add: py_index_def)

lemma py_index_out_of_range:
  "i < - int (length xs) \<or> int (length xs) \<le> i \<Longrightarrow> py_index xs i = Inl IndexError"
  by (auto simp: py_index_def)

text \<open>
  Claim C6, as the code has it. With the argument \<open>-1\<close> the command prints every
  configuration's result, in order. With an argument other than \<open>-1\<close> that is a valid
  index into the results list (from \<open>-len\<close> up to \<open>len - 1\<close>, a negative index counting
  from the end) it prints exactly one configuration's result, the one at that index.
\<close>

theorem approx_selection:
  "approx run dump_config str_of format_2f ctx_obj (- 1) appdir =
     Inr (concat (map (print_result dump_config str_of format_2f) (run (get_eval appdir ctx_obj))))
   \<and> (num \<noteq> - 1 \<and> - int (length (run (get_eval appdir ctx_obj))) \<le> num
        \<and> num < int (length (run (get_eval appdir ctx_obj))) \<longrightarrow>
      approx run dump_config str_of format_2f ctx_obj num appdir =
        Inr (print_result dump_config str_of format_2f
              (run (get_eval appdir ctx_obj)
                 ! nat (if num < 0 then num + int (length (run (get_eval appdir ctx_obj)))
                        else num))))"
  by (simp add: approx_def Let_def py_index_in_range)

text \<open>
  The claim as stated fails for an index out of range: with one result and the argument
  \<open>1\<close> the lookup raises \<open>IndexError\<close> and nothing is printed.
\<close>

theorem approx_index_out_of_range:
  "approx (\<lambda>ev. [\<lparr>config = (), outputs = [''7''], durations = [Some 1], desc = ''good''\<rparr>])
     (\<lambda>k. ''config'') (\<lambda>out. out) (\<lambda>t. ''1.00'')
     \<lparr>client = (), reps = 1, test_reps = 1, keep_sandboxes = False\<rparr> 1 ''.''
   = Inl IndexError"
  by (simp add: approx_def Let_def py_index_def)

theorem approx_selection_witness:
  "approx (\<lambda>ev. [\<lparr>config = (), outputs = [''7''], durations = [None], desc = ''bad''\<rparr>,
                  \<lparr>config = (), outputs = [''8''], durations = [None], desc = ''good''\<rparr>])
     (\<lambda>k. ''config'') (\<lambda>out. out) (\<lambda>t. ''1.00'')
     \<lparr>client = (), reps = 1, test_reps = 1, keep_sandboxes = False\<rparr> (- 2) ''.''
   = Inr [''config'', ''output:'', ''  7'', ''time:'', ''  (error)'', ''bad'', '''']"
  using approx_selection [of
      "\<lambda>ev. [\<lparr>config = (), outputs = [''7''], durations = [None], desc = ''bad''\<rparr>,
              \<lparr>config = (), outputs = [''8''], durations = [None], desc = ''good''\<rparr>]"
      "\<lambda>k. ''config''" "\<lambda>out. out" "\<lambda>t. ''1.00''"
      "\<lparr>client = (), reps = 1, test_reps = 1, keep_sandboxes = False\<rparr>" "''.''" "- 2"]
  by (simp add: print_result_def print_duration_def)

text \<open>
  Claim C8, as the code has it. For a configuration result the command prints, after the
  line \<open>time:\<close>, one line per replicate, in order: \<open>(error)\<close> for a replicate with no
  duration, the duration with two decimals otherwise. The status descriptor follows the
  timings when it is not \<open>good\<close>; for a good configuration no descriptor is printed.
\<close>

theorem print_result_timings:
  "print_result dump_config str_of format_2f result =
     dump_config (config result) # ''output:'' # map (\<lambda>out. ''  '' @ str_of out) (outputs result)
     @ ''time:'' # map (print_duration format_2f) (durations result)
     @ (if desc result = ''good'' then [''''] else [desc result, ''''])
   \<and> print_duration format_2f None = ''  (error)''
   \<and> print_duration format_2f (Some t) = ''  '' @ format_2f t
   \<and> length (map (print_duration format_2f) (durations result)) = length (durations result)"
  by (simp add: print_result_def print_duration_def)

text \<open>
  The claim as stated fails for a good configuration: its descriptor is not among the
  printed lines.
\<close>

theorem print_result_good_no_desc:
  "print_result (\<lambda>k. ''config'') (\<lambda>out. out) (\<lambda>t. ''1.50'')
     \<lparr>config = (), outputs = [''7''], durations = [Some (3 / 2), None], desc = ''good''\<rparr>
   = [''config'', ''output:'', ''  7'', ''time:'', ''  1.50'', ''  (error)'', '''']
   \<and> ''good'' \<notin> set (print_result (\<lambda>k. ''config'') (\<lambda>out. out) (\<lambda>t. ''1.50'')
     \<lparr>config = (), outputs = [''7''], durations = [Some (3 / 2), None], desc = ''good''\<rparr>)"
  by (simp add: print_result_def print_duration_def)

subsection \<open>Properties of \<open>exp\<close>\<close>








subsection \<open>Properties of \<open>log_and_output\<close>\<close>

lemma remove_if_exists: "(if fn \<in> dom fs then fs(fn := None) else fs) = fs(fn := None)"
  by (auto simp: fun_eq_iff)

lemma read_if_exists:
  "(if fn \<in> dom fs then (case fs fn of Some text \<Rightarrow> text | None \<Rightarrow> []) else []) =
     (case fs fn of None \<Rightarrow> [] | Some text \<Rightarrow> text)"
  by (auto split: option.splits)

text \<open>
  Claim C7. The build runs on the sandbox working directory without the log file, whatever
  the directory held under that name before: the result of \<open>log_and_output\<close> is the
  output of that build together with the contents of the log file found after it, the
  empty string if there is none, and a log file left over from before has no influence
  on the result.
\<close>

theorem log_and_output_result:
  assumes "sandbox directory keep = (cwd, files0)"
    and "core_build (files0(fn := None)) = (output, files2)"
  shows "log_and_output sandbox core_build directory fn keep =
           (((case files2 fn of None \<Rightarrow> '''' | Some text \<Rightarrow> text), output),
            (if keep then [''building in directory: '' @ cwd] else []))
         \<and> (files2 fn = None \<longrightarrow>
              fst (fst (log_and_output sandbox core_build directory fn keep)) = '''')
         \<and> (\<forall>stale. log_and_output (\<lambda>d k. (cwd, files0(fn \<mapsto> stale))) core_build directory fn keep =
              log_and_output sandbox core_build directory fn keep)"
proof -
  have r: "log_and_output sandbox core_build directory fn keep =
           (((case files2 fn of None \<Rightarrow> '''' | Some text \<Rightarrow> text), output),
            (if keep then [''building in directory: '' @ cwd] else []))"
    using assms by (simp add: log_and_output_def remove_if_exists read_if_exists)
  have s: "log_and_output (\<lambda>d k. (cwd, files0(fn \<mapsto> stale))) core_build directory fn keep =
           (((case files2 fn of None \<Rightarrow> '''' | Some text \<Rightarrow> text), output),
            (if keep then [''building in directory: '' @ cwd] else []))" for stale
    using assms(2) by (simp add: log_and_output_def read_if_exists)
  from r s show ?thesis by simp
qed

theorem log_and_output_result_witness:
  "log_and_output (\<lambda>d k. (''/tmp/sandbox'', [''accept_log.txt'' \<mapsto> ''stale'', ''Makefile'' \<mapsto> ''all:'']))
     (\<lambda>fs. (''cc main.c'', case fs ''accept_log.txt'' of
                              None \<Rightarrow> fs(''accept_log.txt'' \<mapsto> ''loop perforated'')
                            | Some old \<Rightarrow> fs(''accept_log.txt'' \<mapsto> old @ ''loop perforated'')))
     ''sobel'' ''accept_log.txt'' True
   = ((''loop perforated'', ''cc main.c''), [''building in directory: /tmp/sandbox''])"
  using log_and_output_result [of
      "\<lambda>d k. (''/tmp/sandbox'', [''accept_log.txt'' \<mapsto> ''stale'', ''Makefile'' \<mapsto> ''all:''])"
      "''sobel''" True "''/tmp/sandbox''"
      "[''accept_log.txt'' \<mapsto> ''stale'', ''Makefile'' \<mapsto> ''all:'']"
      "\<lambda>fs. (''cc main.c'', case fs ''accept_log.txt'' of
                              None \<Rightarrow> fs(''accept_log.txt'' \<mapsto> ''loop perforated'')
                            | Some old \<Rightarrow> fs(''accept_log.txt'' \<mapsto> old @ ''loop perforated''))"
      "''accept_log.txt''" "''cc main.c''"
      "([''accept_log.txt'' \<mapsto> ''stale'', ''Makefile'' \<mapsto> ''all:''](''accept_log.txt'' := None))
         (''accept_log.txt'' \<mapsto> ''loop perforated'')"]
  by simp

subsection \<open>Properties of \<open>log\<close> and \<open>build\<close>\<close>




end
